theory Spec2Isabelle
  imports Main
begin

section \<open>Python string operations used by \<open>compose.py\<close>\<close>

text \<open>
  Strings are \<open>char list\<close>. The three characters that cannot be written inside a
  literal are named here: the double quote, the single quote and the backslash.
\<close>

definition dq :: char where
  "dq = CHR 0x22"

definition sq :: char where
  "sq = CHR 0x27"


text \<open>\<open>s.startswith(p)\<close> and \<open>s.removeprefix(p)\<close>.\<close>

definition startswith :: "string \<Rightarrow> string \<Rightarrow> bool" where
  "startswith s p = (take (length p) s = p)"

definition removeprefix :: "string \<Rightarrow> string \<Rightarrow> string" where
  "removeprefix s p = (if startswith s p then drop (length p) s else s)"

text \<open>\<open>p in s\<close> for strings: \<open>p\<close> occurs in \<open>s\<close> as a contiguous substring.\<close>

fun str_contains :: "string \<Rightarrow> string \<Rightarrow> bool" where
  "str_contains p [] = (p = [])"
| "str_contains p (c # cs) = (startswith (c # cs) p \<or> str_contains p cs)"

text \<open>
  \<open>s.split(sep, maxsplit)\<close> for a separator of one character: at most \<open>maxsplit\<close>
  splits are made, from the left; the result always has at least one element.
\<close>

fun str_split :: "char \<Rightarrow> nat \<Rightarrow> string \<Rightarrow> string list" where
  "str_split sep maxsplit [] = [[]]"
| "str_split sep 0 (c # cs) = [c # cs]"
| "str_split sep (Suc n) (c # cs) =
     (if c = sep then [] # str_split sep n cs
      else (case str_split sep (Suc n) cs of
              [] \<Rightarrow> [[c]]
            | w # ws \<Rightarrow> (c # w) # ws))"

text \<open>\<open>sep.join(xs)\<close>.\<close>

fun str_join :: "string \<Rightarrow> string list \<Rightarrow> string" where
  "str_join sep [] = []"
| "str_join sep [x] = x"
| "str_join sep (x # y # ys) = x @ sep @ str_join sep (y # ys)"

text \<open>
  \<open>s.replace(old, new)\<close> for a pattern \<open>old\<close> of one character: every occurrence
  of the character is replaced by \<open>new\<close>.
\<close>

fun str_replace :: "char \<Rightarrow> string \<Rightarrow> string \<Rightarrow> string" where
  "str_replace old new [] = []"
| "str_replace old new (c # cs) =
     (if c = old then new @ str_replace old new cs else c # str_replace old new cs)"

text \<open>
  The line boundaries of \<open>str.splitlines\<close> and the whitespace of \<open>str.strip\<close>,
  in the range of an 8-bit character: line feed, vertical tab, form feed, carriage
  return, the file, group and record separators and NEL for the first; these with
  the tab, the unit separator, the space and the no-break space for the second.
\<close>

definition is_linebreak :: "char \<Rightarrow> bool" where
  "is_linebreak c =
     (c \<in> {CHR 0x0A, CHR 0x0B, CHR 0x0C, CHR 0x0D, CHR 0x1C, CHR 0x1D, CHR 0x1E, CHR 0x85})"

definition is_space :: "char \<Rightarrow> bool" where
  "is_space c =
     (c \<in> {CHR 0x09, CHR 0x0A, CHR 0x0B, CHR 0x0C, CHR 0x0D, CHR 0x1C, CHR 0x1D, CHR 0x1E,
           CHR 0x1F, CHR 0x20, CHR 0x85, CHR 0xA0})"

text \<open>
  \<open>s.splitlines()\<close>: the text is cut at every line boundary, a carriage return
  followed by a line feed counting as one boundary; the boundaries are dropped, and a
  boundary at the very end starts no further line. The first argument is the line
  read so far.
\<close>

fun splitlines_from :: "string \<Rightarrow> string \<Rightarrow> string list" where
  "splitlines_from cur [] = (if cur = [] then [] else [cur])"
| "splitlines_from cur [c] =
     (if is_linebreak c then [cur] else [cur @ [c]])"
| "splitlines_from cur (c # d # cs) =
     (if is_linebreak c then
        (if c = CHR 0x0D \<and> d = CHR 0x0A then cur # splitlines_from [] cs
         else cur # splitlines_from [] (d # cs))
      else splitlines_from (cur @ [c]) (d # cs))"

definition splitlines :: "string \<Rightarrow> string list" where
  "splitlines s = splitlines_from [] s"

text \<open>\<open>s.strip()\<close>: leading and trailing whitespace removed.\<close>

definition strip :: "string \<Rightarrow> string" where
  "strip s = rev (dropWhile is_space (rev (dropWhile is_space s)))"

section \<open>An insertion-ordered dictionary\<close>

text \<open>
  A Python \<open>dict\<close> keeps its keys in insertion order. \<open>d[k] = v\<close> replaces the
  value of a key that is present, at the place where the key is, and adds a new key
  at the end.
\<close>

type_synonym ('k, 'v) dict = "('k \<times> 'v) list"

fun dict_setitem :: "'k \<Rightarrow> 'v \<Rightarrow> ('k, 'v) dict \<Rightarrow> ('k, 'v) dict" where
  "dict_setitem k v [] = [(k, v)]"
| "dict_setitem k v ((k', v') # d) =
     (if k' = k then (k, v) # d else (k', v') # dict_setitem k v d)"

section \<open>The generator's inputs\<close>

text \<open>
  What \<open>compose.py\<close> imports or reads from the host, taken as parameters: the constant
  \<open>RAG_DIR\<close> and the functions \<open>get_accel_env_vars\<close> and \<open>version\<close> of the
  package, and \<open>os.path.exists\<close>.
\<close>

record host =
  RAG_DIR :: string
  get_accel_env_vars :: "(string, string) dict"
  version :: string
  path_exists :: "string \<Rightarrow> bool"

text \<open>
  The attributes of \<open>args\<close> that the generator reads. Those read with
  \<open>getattr(args, _, None)\<close> are optional: \<open>None\<close> stands for a missing attribute as
  well as for the value \<open>None\<close>.
\<close>

record args =
  args_name :: "string option"
  args_rag :: "string option"
  args_port :: "string option"
  args_env :: "string list option"
  args_image :: string

record Compose =
  src_model_path :: string
  dest_model_path :: string
  src_chat_template_path :: string
  dest_chat_template_path :: string
  src_mmproj_path :: string
  dest_mmproj_path :: string
  model_name :: string
  name :: string
  args :: args
  exec_args :: "string list"
  image_ref :: string

text \<open>The result: \<open>PlainFile\<close> holds a file name and the text.\<close>

record PlainFile =
  filename :: string
  content :: string

datatype error = ValueError

section \<open>\<open>Compose.__init__\<close>\<close>

definition Compose_init ::
  "string \<Rightarrow> string \<times> string \<Rightarrow> (string \<times> string) option \<Rightarrow> (string \<times> string) option
     \<Rightarrow> args \<Rightarrow> string list \<Rightarrow> Compose" where
  "Compose_init model_name' model_paths chat_template_paths mmproj_paths args' exec_args' =
     (let (src_model, dest_model) = model_paths;
          (src_chat, dest_chat) =
             (case chat_template_paths of Some p \<Rightarrow> p | None \<Rightarrow> ([], []));
          (src_mmproj, dest_mmproj) =
             (case mmproj_paths of Some p \<Rightarrow> p | None \<Rightarrow> ([], []));
          custom_name = args_name args'
      in \<lparr> src_model_path = removeprefix src_model ''oci://'',
           dest_model_path = dest_model,
           src_chat_template_path = src_chat,
           dest_chat_template_path = dest_chat,
           src_mmproj_path = src_mmproj,
           dest_mmproj_path = dest_mmproj,
           model_name = model_name',
           name = (case custom_name of
                     None \<Rightarrow> ''ramalama-'' @ model_name'
                   | Some n \<Rightarrow> if n \<noteq> [] then n else ''ramalama-'' @ model_name'),
           args = args',
           exec_args = exec_args',
           image_ref = args_image args' \<rparr>)"

section \<open>The volumes section\<close>

definition gen_model_volume :: "Compose \<Rightarrow> string" where
  "gen_model_volume self =
     ''\<newline>      - '' @ [dq] @ src_model_path self @ '':'' @ dest_model_path self @ '':ro'' @ [dq]"

definition gen_rag_volume :: "host \<Rightarrow> string \<Rightarrow> string" where
  "gen_rag_volume h rag_source =
     (if startswith rag_source ''oci:'' then
        (let oci_image = removeprefix rag_source ''oci:''
         in ''\<newline>      - type: image'' @
            ''\<newline>        source: '' @ oci_image @
            ''\<newline>        target: '' @ RAG_DIR h @
            ''\<newline>        image:'' @
            ''\<newline>          readonly: true'')
      else if path_exists h rag_source then
        ''\<newline>      - '' @ [dq] @ rag_source @ '':'' @ RAG_DIR h @ '':ro'' @ [dq]
      else [])"

definition gen_chat_template_volume :: "Compose \<Rightarrow> string" where
  "gen_chat_template_volume self =
     ''\<newline>      - '' @ [dq] @ src_chat_template_path self @ '':'' @
        dest_chat_template_path self @ '':ro'' @ [dq]"

definition gen_mmproj_volume :: "Compose \<Rightarrow> string" where
  "gen_mmproj_volume self =
     ''\<newline>      - '' @ [dq] @ src_mmproj_path self @ '':'' @ dest_mmproj_path self @ '':ro'' @ [dq]"

text \<open>
  \<open>_gen_volumes\<close> appends to the heading, in this order, the model mount, the corpus
  mount when \<open>args.rag\<close> is set and not empty, the chat template mount and the
  projector mount when their host path is not empty and exists.
\<close>

definition gen_volumes :: "host \<Rightarrow> Compose \<Rightarrow> string" where
  "gen_volumes h self =
     (let volumes = ''    volumes:'';
          volumes = volumes @ gen_model_volume self;
          volumes = (case args_rag (args self) of
                       None \<Rightarrow> volumes
                     | Some rag \<Rightarrow> if rag \<noteq> [] then volumes @ gen_rag_volume h rag else volumes);
          volumes = (if src_chat_template_path self \<noteq> [] \<and>
                        path_exists h (src_chat_template_path self)
                     then volumes @ gen_chat_template_volume self else volumes);
          volumes = (if src_mmproj_path self \<noteq> [] \<and> path_exists h (src_mmproj_path self)
                     then volumes @ gen_mmproj_volume self else volumes)
      in volumes)"

text \<open>
  The pieces that \<open>_gen_volumes\<close> appends to the heading, in the order in which it
  appends them, one element for every append that adds text: the entries of the
  section.
\<close>

definition volume_entries :: "host \<Rightarrow> Compose \<Rightarrow> string list" where
  "volume_entries h self =
     [gen_model_volume self] @
     (case args_rag (args self) of
        None \<Rightarrow> []
      | Some rag \<Rightarrow>
          if rag \<noteq> [] \<and> gen_rag_volume h rag \<noteq> [] then [gen_rag_volume h rag] else []) @
     (if src_chat_template_path self \<noteq> [] \<and> path_exists h (src_chat_template_path self)
      then [gen_chat_template_volume self] else []) @
     (if src_mmproj_path self \<noteq> [] \<and> path_exists h (src_mmproj_path self)
      then [gen_mmproj_volume self] else [])"

section \<open>The devices, ports and environment sections\<close>

definition gen_devices :: "host \<Rightarrow> string" where
  "gen_devices h =
     (let device_list = filter (path_exists h) [''/dev/dri'', ''/dev/kfd'', ''/dev/accel'']
      in if device_list = [] then []
         else foldl (\<lambda>devices_str dev.
                       devices_str @ ''\<newline>      - '' @ [dq] @ dev @ '':'' @ dev @ [dq])
                ''    devices:'' device_list)"

text \<open>
  \<open>_gen_ports\<close>: a port that is missing, \<open>None\<close> or the empty string gives the
  default. Otherwise the string is split at its first two colons; the first part is
  the container port, and the second part, when there is one, the host port.
\<close>

definition gen_ports :: "Compose \<Rightarrow> string" where
  "gen_ports self =
     (case args_port (args self) of
        None \<Rightarrow> ''    ports:\<newline>      - '' @ [dq] @ ''8080:8080'' @ [dq]
      | Some port_arg \<Rightarrow>
          if port_arg = [] then ''    ports:\<newline>      - '' @ [dq] @ ''8080:8080'' @ [dq]
          else
            (let p = str_split CHR '':'' 2 port_arg;
                 host_port = (if length p > 1 then p ! 1 else p ! 0);
                 container_port = p ! 0
             in ''    ports:\<newline>      - '' @ [dq] @ host_port @ '':'' @ container_port @ [dq]))"

text \<open>
  The loop of \<open>_gen_environment\<close> over \<open>args.env\<close>: \<open>key, val = e.split("=", 1)\<close>
  raises \<open>ValueError\<close> when \<open>e\<close> has no \<open>=\<close>, the list having one element then.
\<close>

fun env_overrides :: "string list \<Rightarrow> (string, string) dict \<Rightarrow> error + (string, string) dict" where
  "env_overrides [] env_vars = Inr env_vars"
| "env_overrides (e # es) env_vars =
     (case str_split CHR ''='' 1 e of
        [key, val] \<Rightarrow> env_overrides es (dict_setitem key val env_vars)
      | _ \<Rightarrow> Inl ValueError)"

definition env_merged :: "host \<Rightarrow> Compose \<Rightarrow> error + (string, string) dict" where
  "env_merged h self =
     (case args_env (args self) of
        None \<Rightarrow> Inr (get_accel_env_vars h)
      | Some env \<Rightarrow> env_overrides env (get_accel_env_vars h))"

definition env_spec :: "(string, string) dict \<Rightarrow> string" where
  "env_spec env_vars =
     (if env_vars = [] then []
      else foldl (\<lambda>spec (k, v). spec @ ''\<newline>      - '' @ k @ ''='' @ v)
             ''    environment:'' env_vars)"

definition gen_environment :: "host \<Rightarrow> Compose \<Rightarrow> error + string" where
  "gen_environment h self =
     (case env_merged h self of
        Inl e \<Rightarrow> Inl e
      | Inr env_vars \<Rightarrow> Inr (env_spec env_vars))"

section \<open>The deploy section\<close>

definition gen_gpu_deployment :: "Compose \<Rightarrow> string" where
  "gen_gpu_deployment self =
     (if \<not> str_contains ''cuda'' (image_ref self) then []
      else ''    deploy:'' @
           ''\<newline>      resources:'' @
           ''\<newline>        reservations:'' @
           ''\<newline>          devices:'' @
           ''\<newline>            - driver: nvidia'' @
           ''\<newline>              count: all'' @
           ''\<newline>              capabilities: [gpu]'')"

section \<open>\<open>shlex\<close>: quoting and splitting\<close>

text \<open>
  \<open>shlex.quote\<close> leaves a string alone when it is not empty and has only the
  characters that the pattern \<open>[^\w@%+=:,./-]\<close> (ASCII) does not match; otherwise it
  wraps the string in single quotes, each single quote inside becoming
  a closing quote, a quoted single quote and an opening quote.
\<close>

definition safe_chars :: string where
  "safe_chars =
     ''abcdefghijklmnopqrstuvwxyzABCDEFGHIJKLMNOPQRSTUVWXYZ0123456789_@%+=:,./-''"

definition find_unsafe :: "string \<Rightarrow> bool" where
  "find_unsafe s = (\<exists>c \<in> set s. c \<notin> set safe_chars)"

definition shlex_quote :: "string \<Rightarrow> string" where
  "shlex_quote s =
     (if s = [] then [sq, sq]
      else if \<not> find_unsafe s then s
      else [sq] @ str_replace sq [sq, dq, sq, dq, sq] s @ [sq])"

definition shlex_join :: "string list \<Rightarrow> string" where
  "shlex_join split_command = str_join '' '' (map shlex_quote split_command)"










section \<open>The command section\<close>

definition gen_command :: "Compose \<Rightarrow> string" where
  "gen_command self =
     (if exec_args self = [] then []
      else (let cmd = shlex_join (exec_args self) in ''    command: '' @ cmd))"

section \<open>\<open>generate\<close>\<close>

text \<open>
  \<open>genfile\<close> prints one line and returns the file; the printed line is the first
  component of the result.
\<close>

definition genfile :: "string \<Rightarrow> string \<Rightarrow> string \<times> PlainFile" where
  "genfile name' content' =
     (let file_name = ''docker-compose.yaml''
      in (''Generating Docker Compose file: '' @ file_name,
          \<lparr> filename = file_name, content = content' \<rparr>))"

text \<open>The template of \<open>generate\<close>, before the empty lines are removed.\<close>

definition template ::
  "string \<Rightarrow> Compose \<Rightarrow> string \<Rightarrow> string \<Rightarrow> string \<Rightarrow> string \<Rightarrow> string \<Rightarrow> string \<Rightarrow> string" where
  "template version' self volumes_string ports_string environment_string devices_string
       gpu_deploy_string command_string =
     ''# Save this output to a 'docker-compose.yaml' file and run 'docker compose up'.'' @
     ''\<newline>#'' @
     ''\<newline># Created with ramalama-'' @ version' @
     ''\<newline>'' @
     ''\<newline>services:'' @
     ''\<newline>  '' @ model_name self @ '':'' @
     ''\<newline>    container_name: '' @ name self @
     ''\<newline>    image: '' @ image_ref self @
     ''\<newline>'' @ volumes_string @
     ''\<newline>'' @ ports_string @
     ''\<newline>'' @ environment_string @
     ''\<newline>'' @ devices_string @
     ''\<newline>'' @ gpu_deploy_string @
     ''\<newline>'' @ command_string @
     ''\<newline>    restart: unless-stopped'' @
     ''\<newline>''"

text \<open>
  \<open>generate\<close> builds the six sections, fills the template, keeps the lines that
  \<open>strip\<close> does not make empty and joins them with line feeds. The only exception
  comes from the environment section.
\<close>

definition generate :: "host \<Rightarrow> Compose \<Rightarrow> error + (string \<times> PlainFile)" where
  "generate h self =
     (let version' = version h;
          volumes_string = gen_volumes h self;
          ports_string = gen_ports self
      in case gen_environment h self of
           Inl e \<Rightarrow> Inl e
         | Inr environment_string \<Rightarrow>
             (let devices_string = gen_devices h;
                  gpu_deploy_string = gen_gpu_deployment self;
                  command_string = gen_command self;
                  content' = template version' self volumes_string ports_string
                               environment_string devices_string gpu_deploy_string
                               command_string;
                  content' = str_join ''\<newline>''
                               (filter (\<lambda>line. strip line \<noteq> []) (splitlines content'))
              in Inr (genfile (name self) content')))"

section \<open>A sample configuration\<close>

text \<open>
  A host without accelerator variables and without any of the probed paths, and a
  configuration with every optional input absent; the examples below change one
  field at a time.
\<close>

definition sample_host :: host where
  "sample_host = \<lparr> RAG_DIR = ''/rag'', get_accel_env_vars = [], version = ''0.12.1'',
                    path_exists = (\<lambda>p. False) \<rparr>"

definition sample_args :: args where
  "sample_args = \<lparr> args_name = None, args_rag = None, args_port = None, args_env = None,
                    args_image = ''quay.io/ramalama/ramalama:latest'' \<rparr>"

definition sample_compose :: "args \<Rightarrow> Compose" where
  "sample_compose a =
     Compose_init ''tinyllama'' (''/models/tinyllama.gguf'', ''/mnt/models/model.file'')
       None None a []"

section \<open>Facts about the string operations\<close>

lemma args_sample_compose [simp]: "args (sample_compose a) = a"
  by (simp add: sample_compose_def Compose_init_def)

lemma str_split_no_sep: "sep \<notin> set s \<Longrightarrow> str_split sep n s = [s]"
  by (induction sep n s rule: str_split.induct) auto

lemma str_split_at_first:
  "sep \<notin> set a \<Longrightarrow> str_split sep (Suc n) (a @ sep # b) = a # str_split sep n b"
  by (induction a) auto

lemma str_split_nonempty: "str_split sep n s \<noteq> []"
  by (induction sep n s rule: str_split.induct) (auto split: list.splits)

lemma hd_str_split: "hd (str_split sep (Suc n) s) = takeWhile (\<lambda>c. c \<noteq> sep) s"
  by (induction s) (auto split: list.splits simp: str_split_nonempty)

lemma startswith_iff: "startswith s p \<longleftrightarrow> (\<exists>post. s = p @ post)"
proof
  assume "startswith s p"
  then have "s = p @ drop (length p) s"
    by (metis append_take_drop_id startswith_def)
  then show "\<exists>post. s = p @ post" ..
next
  assume "\<exists>post. s = p @ post"
  then show "startswith s p" by (auto simp: startswith_def)
qed

lemma startswith_append [simp]: "startswith (p @ s) p"
  by (simp add: startswith_def)

lemma removeprefix_append [simp]: "removeprefix (p @ s) p = s"
  by (simp add: removeprefix_def)

lemma str_contains_iff: "str_contains p s \<longleftrightarrow> (\<exists>pre post. s = pre @ p @ post)"
proof (induction s)
  case Nil
  then show ?case by simp
next
  case (Cons c cs)
  show ?case
  proof
    assume "str_contains p (c # cs)"
    then consider "startswith (c # cs) p" | "str_contains p cs" by auto
    then show "\<exists>pre post. c # cs = pre @ p @ post"
    proof cases
      case 1
      then obtain post where "c # cs = p @ post" by (auto simp: startswith_iff)
      then have "c # cs = [] @ p @ post" by simp
      then show ?thesis by blast
    next
      case 2
      with Cons.IH obtain pre post where "cs = pre @ p @ post" by blast
      then have "c # cs = (c # pre) @ p @ post" by simp
      then show ?thesis by blast
    qed
  next
    assume "\<exists>pre post. c # cs = pre @ p @ post"
    then obtain pre post where eq: "c # cs = pre @ p @ post" by blast
    show "str_contains p (c # cs)"
    proof (cases pre)
      case Nil
      with eq have "startswith (c # cs) p" by (auto simp: startswith_iff)
      then show ?thesis by simp
    next
      case (Cons d pre')
      with eq have "cs = pre' @ p @ post" by simp
      with Cons.IH have "str_contains p cs" by blast
      then show ?thesis by simp
    qed
  qed
qed

section \<open>The port section\<close>

text \<open>
  C1, as the code has it. Without a port the section is the mapping 8080:8080. A port
  without a colon is emitted on both sides. A port with a colon is cut at its first
  colon: what precedes it is emitted as the container port, on the right, and what
  follows it, up to a second colon if there is one, as the host port, on the left.
\<close>

theorem gen_ports_cases:
  "(args_port (args self) = None \<longrightarrow>
      gen_ports self = ''    ports:\<newline>      - '' @ [dq] @ ''8080:8080'' @ [dq]) \<and>
   (\<forall>n. args_port (args self) = Some n \<and> n \<noteq> [] \<and> CHR '':'' \<notin> set n \<longrightarrow>
      gen_ports self = ''    ports:\<newline>      - '' @ [dq] @ n @ '':'' @ n @ [dq]) \<and>
   (\<forall>a b. args_port (args self) = Some (a @ '':'' @ b) \<and> CHR '':'' \<notin> set a \<longrightarrow>
      gen_ports self =
        ''    ports:\<newline>      - '' @ [dq] @ takeWhile (\<lambda>c. c \<noteq> CHR '':'') b @ '':'' @ a @ [dq])"
proof (intro conjI allI impI)
  assume "args_port (args self) = None"
  then show "gen_ports self = ''    ports:\<newline>      - '' @ [dq] @ ''8080:8080'' @ [dq]"
    by (simp add: gen_ports_def)
next
  fix n
  assume "args_port (args self) = Some n \<and> n \<noteq> [] \<and> CHR '':'' \<notin> set n"
  then show "gen_ports self = ''    ports:\<newline>      - '' @ [dq] @ n @ '':'' @ n @ [dq]"
    by (simp add: gen_ports_def str_split_no_sep)
next
  fix a b
  assume h: "args_port (args self) = Some (a @ '':'' @ b) \<and> CHR '':'' \<notin> set a"
  then have split: "str_split CHR '':'' 2 (a @ '':'' @ b) = a # str_split CHR '':'' (Suc 0) b"
    using str_split_at_first [of "CHR '':''" a "Suc 0" b] by (simp add: numeral_2_eq_2)
  obtain w ws where ws: "str_split CHR '':'' (Suc 0) b = w # ws"
    using str_split_nonempty [of "CHR '':''" "Suc 0" b]
    by (cases "str_split CHR '':'' (Suc 0) b") auto
  with hd_str_split [of "CHR '':''" 0 b] have w: "w = takeWhile (\<lambda>c. c \<noteq> CHR '':'') b"
    by simp
  from h split ws w
  show "gen_ports self =
        ''    ports:\<newline>      - '' @ [dq] @ takeWhile (\<lambda>c. c \<noteq> CHR '':'') b @ '':'' @ a @ [dq]"
    by (simp add: gen_ports_def)
qed

text \<open>The three cases at the sample configuration, the last with the port 9090:8080.\<close>

theorem gen_ports_cases_witness:
  "gen_ports (sample_compose sample_args) =
     ''    ports:\<newline>      - '' @ [dq] @ ''8080:8080'' @ [dq] \<and>
   gen_ports (sample_compose (sample_args\<lparr>args_port := Some ''8081''\<rparr>)) =
     ''    ports:\<newline>      - '' @ [dq] @ ''8081:8081'' @ [dq] \<and>
   gen_ports (sample_compose (sample_args\<lparr>args_port := Some ''9090:8080''\<rparr>)) =
     ''    ports:\<newline>      - '' @ [dq] @ ''8080:9090'' @ [dq]"
  using gen_ports_cases [of "sample_compose sample_args"]
    gen_ports_cases [of "sample_compose (sample_args\<lparr>args_port := Some ''8081''\<rparr>)",
      THEN conjunct2, THEN conjunct1, THEN spec, of "''8081''"]
    gen_ports_cases [of "sample_compose (sample_args\<lparr>args_port := Some ''9090:8080''\<rparr>)",
      THEN conjunct2, THEN conjunct2, THEN spec, THEN spec, of "''9090''" "''8080''"]
  by (simp add: sample_args_def)

text \<open>
  C1 as the specification states it fails: for the port 9090:8080 the section maps
  8080 to 9090, not 9090 to 8080.
\<close>

theorem gen_ports_swapped_counterexample:
  "gen_ports (sample_compose (sample_args\<lparr>args_port := Some ''9090:8080''\<rparr>)) =
     ''    ports:\<newline>      - '' @ [dq] @ ''8080:9090'' @ [dq] \<and>
   gen_ports (sample_compose (sample_args\<lparr>args_port := Some ''9090:8080''\<rparr>)) \<noteq>
     ''    ports:\<newline>      - '' @ [dq] @ ''9090:8080'' @ [dq]"
  by (simp add: gen_ports_def sample_args_def numeral_2_eq_2)

text \<open>
  C2, as the code has it. A port that is set to the empty string is taken as no port:
  the section is the default mapping, and \<open>generate\<close> does what it does for the
  same configuration without a port; nothing is raised for it.
\<close>

theorem empty_port_as_unset:
  "args_port (args self) = Some [] \<Longrightarrow>
     gen_ports self = ''    ports:\<newline>      - '' @ [dq] @ ''8080:8080'' @ [dq] \<and>
     generate h self = generate h (self\<lparr>args := (args self)\<lparr>args_port := None\<rparr>\<rparr>)"
proof -
  assume empty: "args_port (args self) = Some []"
  define self' where "self' = self\<lparr>args := (args self)\<lparr>args_port := None\<rparr>\<rparr>"
  have ports: "gen_ports self = ''    ports:\<newline>      - '' @ [dq] @ ''8080:8080'' @ [dq]"
    using empty by (simp add: gen_ports_def)
  have ports': "gen_ports self' = gen_ports self"
    using empty by (simp add: gen_ports_def self'_def)
  have volumes: "gen_volumes h self' = gen_volumes h self"
    by (simp add: gen_volumes_def self'_def gen_model_volume_def gen_chat_template_volume_def
          gen_mmproj_volume_def Let_def)
  have environment: "gen_environment h self' = gen_environment h self"
    by (simp add: gen_environment_def env_merged_def self'_def)
  have deploy: "gen_gpu_deployment self' = gen_gpu_deployment self"
    by (simp add: gen_gpu_deployment_def self'_def)
  have command: "gen_command self' = gen_command self"
    by (simp add: gen_command_def self'_def)
  have template: "template v self' = template v self" for v
    by (rule ext)+ (simp add: template_def self'_def)
  have name: "name self' = name self"
    by (simp add: self'_def)
  have "generate h self = generate h self'"
    unfolding generate_def ports' volumes environment deploy command template name ..
  with ports show ?thesis
    by (simp add: self'_def)
qed

text \<open>The sample configuration with the port set to the empty string.\<close>

theorem empty_port_as_unset_witness:
  "args_port (args (sample_compose (sample_args\<lparr>args_port := Some []\<rparr>))) = Some [] \<and>
   gen_ports (sample_compose (sample_args\<lparr>args_port := Some []\<rparr>)) =
     ''    ports:\<newline>      - '' @ [dq] @ ''8080:8080'' @ [dq] \<and>
   generate sample_host (sample_compose (sample_args\<lparr>args_port := Some []\<rparr>)) =
     generate sample_host
       ((sample_compose (sample_args\<lparr>args_port := Some []\<rparr>))
          \<lparr>args := (args (sample_compose (sample_args\<lparr>args_port := Some []\<rparr>)))
                     \<lparr>args_port := None\<rparr>\<rparr>)"
  using empty_port_as_unset [of "sample_compose (sample_args\<lparr>args_port := Some []\<rparr>)" sample_host]
  by simp

text \<open>
  C2 as the specification states it fails: with the port set to the empty string,
  \<open>generate\<close> returns the manifest below and raises nothing.
\<close>

theorem empty_port_no_error_counterexample:
  "generate sample_host (sample_compose (sample_args\<lparr>args_port := Some []\<rparr>)) =
     Inr (''Generating Docker Compose file: docker-compose.yaml'',
          \<lparr> filename = ''docker-compose.yaml'',
            content =
              ''# Save this output to a 'docker-compose.yaml' file and run 'docker compose up'.'' @
              ''\<newline>#'' @
              ''\<newline># Created with ramalama-0.12.1'' @
              ''\<newline>services:'' @
              ''\<newline>  tinyllama:'' @
              ''\<newline>    container_name: ramalama-tinyllama'' @
              ''\<newline>    image: quay.io/ramalama/ramalama:latest'' @
              ''\<newline>    volumes:'' @
              ''\<newline>      - '' @ [dq] @ ''/models/tinyllama.gguf:/mnt/models/model.file:ro'' @ [dq] @
              ''\<newline>    ports:'' @
              ''\<newline>      - '' @ [dq] @ ''8080:8080'' @ [dq] @
              ''\<newline>    restart: unless-stopped'' \<rparr>)"
  by code_simp

section \<open>\<open>generate\<close> without the optional inputs\<close>

text \<open>
  C3, as the code has it. Without a corpus, a chat template, a projector, a port,
  environment overrides and a command, \<open>generate\<close> raises nothing and returns the
  file \<open>docker-compose.yaml\<close>. Its text is the template with the volumes section
  reduced to the model mount, the default port section (which is not omitted), the
  environment section of the accelerator variables alone (omitted when there are
  none) and no command section, the lines that are empty or blank removed.
\<close>

theorem generate_optional_absent:
  assumes "args_rag a = None" and "args_port a = None" and "args_env a = None"
  shows "generate h (Compose_init mn (src, dst) None None a []) =
           Inr (''Generating Docker Compose file: docker-compose.yaml'',
                \<lparr> filename = ''docker-compose.yaml'',
                  content =
                    str_join ''\<newline>''
                      (filter (\<lambda>line. strip line \<noteq> [])
                         (splitlines
                            (template (version h) (Compose_init mn (src, dst) None None a [])
                               (''    volumes:\<newline>      - '' @ [dq] @ removeprefix src ''oci://'' @
                                  '':'' @ dst @ '':ro'' @ [dq])
                               (''    ports:\<newline>      - '' @ [dq] @ ''8080:8080'' @ [dq])
                               (env_spec (get_accel_env_vars h))
                               (gen_devices h)
                               (gen_gpu_deployment (Compose_init mn (src, dst) None None a []))
                               []))) \<rparr>)"
proof -
  define self where "self = Compose_init mn (src, dst) None None a []"
  have fields: "args self = a" "exec_args self = []" "src_chat_template_path self = []"
    "src_mmproj_path self = []" "src_model_path self = removeprefix src ''oci://''"
    "dest_model_path self = dst"
    by (simp_all add: self_def Compose_init_def)
  have volumes: "gen_volumes h self =
      ''    volumes:\<newline>      - '' @ [dq] @ removeprefix src ''oci://'' @ '':'' @ dst @ '':ro'' @ [dq]"
    using assms by (simp add: gen_volumes_def fields gen_model_volume_def Let_def)
  have ports: "gen_ports self = ''    ports:\<newline>      - '' @ [dq] @ ''8080:8080'' @ [dq]"
    using assms by (simp add: gen_ports_def fields)
  have environment: "gen_environment h self = Inr (env_spec (get_accel_env_vars h))"
    using assms by (simp add: gen_environment_def env_merged_def fields)
  have command: "gen_command self = []"
    by (simp add: gen_command_def fields)
  show ?thesis
    unfolding self_def [symmetric] generate_def volumes ports environment command
    by (simp add: genfile_def Let_def)
qed

text \<open>The sample configuration has none of the optional inputs.\<close>

theorem generate_optional_absent_witness:
  "args_rag sample_args = None \<and> args_port sample_args = None \<and> args_env sample_args = None \<and>
   generate sample_host
       (Compose_init ''tinyllama'' (''/models/tinyllama.gguf'', ''/mnt/models/model.file'')
          None None sample_args []) =
     Inr (''Generating Docker Compose file: docker-compose.yaml'',
          \<lparr> filename = ''docker-compose.yaml'',
            content =
              str_join ''\<newline>''
                (filter (\<lambda>line. strip line \<noteq> [])
                   (splitlines
                      (template (version sample_host)
                         (Compose_init ''tinyllama''
                            (''/models/tinyllama.gguf'', ''/mnt/models/model.file'') None None
                            sample_args [])
                         (''    volumes:\<newline>      - '' @ [dq] @
                            removeprefix ''/models/tinyllama.gguf'' ''oci://'' @
                            '':'' @ ''/mnt/models/model.file'' @ '':ro'' @ [dq])
                         (''    ports:\<newline>      - '' @ [dq] @ ''8080:8080'' @ [dq])
                         (env_spec (get_accel_env_vars sample_host))
                         (gen_devices sample_host)
                         (gen_gpu_deployment
                            (Compose_init ''tinyllama''
                               (''/models/tinyllama.gguf'', ''/mnt/models/model.file'') None None
                               sample_args []))
                         []))) \<rparr>)"
proof -
  have a: "args_rag sample_args = None" "args_port sample_args = None"
    "args_env sample_args = None"
    by (simp_all add: sample_args_def)
  show ?thesis
    using a generate_optional_absent [OF a, of sample_host "''tinyllama''"
        "''/models/tinyllama.gguf''" "''/mnt/models/model.file''"]
    by blast
qed

text \<open>
  C3 as the specification states it fails: with every optional input absent the
  section of the port is not omitted, it is the default mapping.
\<close>

theorem port_section_present_counterexample:
  "generate sample_host (sample_compose sample_args) =
     Inr (''Generating Docker Compose file: docker-compose.yaml'',
          \<lparr> filename = ''docker-compose.yaml'',
            content =
              ''# Save this output to a 'docker-compose.yaml' file and run 'docker compose up'.'' @
              ''\<newline>#'' @
              ''\<newline># Created with ramalama-0.12.1'' @
              ''\<newline>services:'' @
              ''\<newline>  tinyllama:'' @
              ''\<newline>    container_name: ramalama-tinyllama'' @
              ''\<newline>    image: quay.io/ramalama/ramalama:latest'' @
              ''\<newline>    volumes:'' @
              ''\<newline>      - '' @ [dq] @ ''/models/tinyllama.gguf:/mnt/models/model.file:ro'' @ [dq] @
              ''\<newline>    ports:'' @
              ''\<newline>      - '' @ [dq] @ ''8080:8080'' @ [dq] @
              ''\<newline>    restart: unless-stopped'' \<rparr>)"
  by code_simp

section \<open>The model mount\<close>

text \<open>
  C5, as the code has it. Of the prefixes of the model's source path only \<open>oci://\<close>
  is removed, once, before the path is written into the model mount; a path that does
  not start with \<open>oci://\<close> is written as it is, whatever scheme it carries.
\<close>

theorem model_path_oci_prefix_only:
  "(\<forall>p. src = ''oci://'' @ p \<longrightarrow>
      gen_model_volume (Compose_init mn (src, dst) ct mm a ea) =
        ''\<newline>      - '' @ [dq] @ p @ '':'' @ dst @ '':ro'' @ [dq]) \<and>
   (\<not> startswith src ''oci://'' \<longrightarrow>
      gen_model_volume (Compose_init mn (src, dst) ct mm a ea) =
        ''\<newline>      - '' @ [dq] @ src @ '':'' @ dst @ '':ro'' @ [dq])"
proof (intro conjI allI impI)
  fix p
  assume "src = ''oci://'' @ p"
  then have "removeprefix src ''oci://'' = p"
    using removeprefix_append [of "''oci://''" p] by simp
  then show "gen_model_volume (Compose_init mn (src, dst) ct mm a ea) =
        ''\<newline>      - '' @ [dq] @ p @ '':'' @ dst @ '':ro'' @ [dq]"
    by (simp add: gen_model_volume_def Compose_init_def split: prod.splits)
next
  assume "\<not> startswith src ''oci://''"
  then have "removeprefix src ''oci://'' = src"
    by (simp add: removeprefix_def)
  then show "gen_model_volume (Compose_init mn (src, dst) ct mm a ea) =
        ''\<newline>      - '' @ [dq] @ src @ '':'' @ dst @ '':ro'' @ [dq]"
    by (simp add: gen_model_volume_def Compose_init_def split: prod.splits)
qed

text \<open>A path with the prefix \<open>oci://\<close> and a path with the prefix \<open>hf://\<close>.\<close>

theorem model_path_oci_prefix_only_witness:
  "gen_model_volume (Compose_init ''tinyllama'' (''oci://quay.io/org/model:1'', ''/mnt/models/model.file'') None None sample_args []) =
     ''\<newline>      - '' @ [dq] @ ''quay.io/org/model:1'' @ '':'' @ ''/mnt/models/model.file'' @ '':ro'' @ [dq] \<and>
   \<not> startswith ''hf://org/model'' ''oci://'' \<and>
   gen_model_volume (Compose_init ''tinyllama'' (''hf://org/model'', ''/mnt/models/model.file'') None None sample_args []) =
     ''\<newline>      - '' @ [dq] @ ''hf://org/model'' @ '':'' @ ''/mnt/models/model.file'' @ '':ro'' @ [dq]"
proof -
  have no: "\<not> startswith ''hf://org/model'' ''oci://''"
    by (simp add: startswith_def)
  show ?thesis
    using no
      model_path_oci_prefix_only [of "''oci://quay.io/org/model:1''" "''tinyllama''"
        "''/mnt/models/model.file''" None None sample_args "[]", THEN conjunct1, THEN spec,
        of "''quay.io/org/model:1''"]
      model_path_oci_prefix_only [of "''hf://org/model''" "''tinyllama''"
        "''/mnt/models/model.file''" None None sample_args "[]", THEN conjunct2]
    by simp
qed

text \<open>
  C5 as the specification states it fails: the prefix \<open>file://\<close> of a model path
  stays in the mount.
\<close>

theorem scheme_kept_counterexample:
  "gen_model_volume
     (Compose_init ''tinyllama'' (''file:///models/tinyllama.gguf'', ''/mnt/models/model.file'')
        None None sample_args []) =
   ''\<newline>      - '' @ [dq] @ ''file:///models/tinyllama.gguf:/mnt/models/model.file:ro'' @ [dq]"
  by (simp add: gen_model_volume_def Compose_init_def removeprefix_def startswith_def)

section \<open>The corpus mount\<close>

text \<open>
  C4. Let the corpus source be set and not empty, and let the tail be the chat
  template and projector mounts that follow. Without the corpus the volumes section is
  the heading, the model mount and the tail. With a source that starts with \<open>oci:\<close>
  the long form of an image volume stands between the model mount and the tail: its
  source is what follows \<open>oci:\<close>, its target is \<open>RAG_DIR\<close>, and it is read-only.
  With any other source that exists on the host, the bind mount of the source on
  \<open>RAG_DIR\<close>, read-only, stands there. With a source that is neither, the section
  is what it is without the corpus.
\<close>

theorem rag_volume_forms:
  assumes "args_rag (args self) = Some rag" and "rag \<noteq> []"
  shows
   "let tail = (if src_chat_template_path self \<noteq> [] \<and> path_exists h (src_chat_template_path self)
                then gen_chat_template_volume self else []) @
               (if src_mmproj_path self \<noteq> [] \<and> path_exists h (src_mmproj_path self)
                then gen_mmproj_volume self else [])
    in gen_volumes h (self\<lparr>args := (args self)\<lparr>args_rag := None\<rparr>\<rparr>) =
         ''    volumes:'' @ gen_model_volume self @ tail \<and>
       (\<forall>ref. rag = ''oci:'' @ ref \<longrightarrow>
          gen_volumes h self =
            ''    volumes:'' @ gen_model_volume self @
            (''\<newline>      - type: image'' @
             ''\<newline>        source: '' @ ref @
             ''\<newline>        target: '' @ RAG_DIR h @
             ''\<newline>        image:'' @
             ''\<newline>          readonly: true'') @ tail) \<and>
       (\<not> startswith rag ''oci:'' \<and> path_exists h rag \<longrightarrow>
          gen_volumes h self =
            ''    volumes:'' @ gen_model_volume self @
            (''\<newline>      - '' @ [dq] @ rag @ '':'' @ RAG_DIR h @ '':ro'' @ [dq]) @ tail) \<and>
       (\<not> startswith rag ''oci:'' \<and> \<not> path_exists h rag \<longrightarrow>
          gen_volumes h self = ''    volumes:'' @ gen_model_volume self @ tail)"
proof -
  define tail where "tail =
      (if src_chat_template_path self \<noteq> [] \<and> path_exists h (src_chat_template_path self)
       then gen_chat_template_volume self else []) @
      (if src_mmproj_path self \<noteq> [] \<and> path_exists h (src_mmproj_path self)
       then gen_mmproj_volume self else [])"
  have with_rag: "gen_volumes h self =
      ''    volumes:'' @ gen_model_volume self @ gen_rag_volume h rag @ tail"
    using assms by (simp add: gen_volumes_def Let_def tail_def)
  have without: "gen_volumes h (self\<lparr>args := (args self)\<lparr>args_rag := None\<rparr>\<rparr>) =
      ''    volumes:'' @ gen_model_volume self @ tail"
    by (simp add: gen_volumes_def Let_def tail_def gen_model_volume_def
          gen_chat_template_volume_def gen_mmproj_volume_def)
  have oci: "gen_rag_volume h (''oci:'' @ ref) =
             ''\<newline>      - type: image'' @
             ''\<newline>        source: '' @ ref @
             ''\<newline>        target: '' @ RAG_DIR h @
             ''\<newline>        image:'' @
             ''\<newline>          readonly: true''" for ref
    using startswith_append [of "''oci:''" ref] removeprefix_append [of "''oci:''" ref]
    by (simp add: gen_rag_volume_def del: startswith_append removeprefix_append)
  have bind: "gen_rag_volume h rag = ''\<newline>      - '' @ [dq] @ rag @ '':'' @ RAG_DIR h @ '':ro'' @ [dq]"
    if "\<not> startswith rag ''oci:''" "path_exists h rag"
    using that by (simp add: gen_rag_volume_def)
  have no_mount: "gen_rag_volume h rag = []"
    if "\<not> startswith rag ''oci:''" "\<not> path_exists h rag"
    using that by (simp add: gen_rag_volume_def)
  show ?thesis
    unfolding Let_def tail_def [symmetric] with_rag without
  proof (intro conjI allI impI)
    show "''    volumes:'' @ gen_model_volume self @ tail =
          ''    volumes:'' @ gen_model_volume self @ tail" ..
  next
    fix ref
    assume "rag = ''oci:'' @ ref"
    with oci [of ref]
    show "''    volumes:'' @ gen_model_volume self @ gen_rag_volume h rag @ tail =
            ''    volumes:'' @ gen_model_volume self @
            (''\<newline>      - type: image'' @
             ''\<newline>        source: '' @ ref @
             ''\<newline>        target: '' @ RAG_DIR h @
             ''\<newline>        image:'' @
             ''\<newline>          readonly: true'') @ tail"
      by simp
  next
    assume path: "\<not> startswith rag ''oci:'' \<and> path_exists h rag"
    from bind [OF conjunct1 [OF path] conjunct2 [OF path]]
    show "''    volumes:'' @ gen_model_volume self @ gen_rag_volume h rag @ tail =
            ''    volumes:'' @ gen_model_volume self @
            (''\<newline>      - '' @ [dq] @ rag @ '':'' @ RAG_DIR h @ '':ro'' @ [dq]) @ tail"
      by simp
  next
    assume neither: "\<not> startswith rag ''oci:'' \<and> \<not> path_exists h rag"
    show "''    volumes:'' @ gen_model_volume self @ gen_rag_volume h rag @ tail =
          ''    volumes:'' @ gen_model_volume self @ tail"
      unfolding no_mount [OF conjunct1 [OF neither] conjunct2 [OF neither]] by simp
  qed
qed

text \<open>
  The image reference of the specification, a path that exists on the host and a
  path that does not.
\<close>

theorem rag_volume_forms_witness:
  "gen_volumes sample_host
     (sample_compose (sample_args\<lparr>args_rag := Some ''oci:quay.io/org/corpus:v1''\<rparr>)) =
     ''    volumes:'' @
     ''\<newline>      - '' @ [dq] @ ''/models/tinyllama.gguf:/mnt/models/model.file:ro'' @ [dq] @
     ''\<newline>      - type: image'' @
     ''\<newline>        source: quay.io/org/corpus:v1'' @
     ''\<newline>        target: /rag'' @
     ''\<newline>        image:'' @
     ''\<newline>          readonly: true'' \<and>
   gen_volumes (sample_host\<lparr>path_exists := (\<lambda>p. p = ''/data/corpus'')\<rparr>)
     (sample_compose (sample_args\<lparr>args_rag := Some ''/data/corpus''\<rparr>)) =
     ''    volumes:'' @
     ''\<newline>      - '' @ [dq] @ ''/models/tinyllama.gguf:/mnt/models/model.file:ro'' @ [dq] @
     ''\<newline>      - '' @ [dq] @ ''/data/corpus:/rag:ro'' @ [dq] \<and>
   gen_volumes sample_host
     (sample_compose (sample_args\<lparr>args_rag := Some ''/no/such/path''\<rparr>)) =
     ''    volumes:'' @
     ''\<newline>      - '' @ [dq] @ ''/models/tinyllama.gguf:/mnt/models/model.file:ro'' @ [dq]"
proof -
  have fields: "src_chat_template_path (sample_compose a) = []"
    "src_mmproj_path (sample_compose a) = []"
    "gen_model_volume (sample_compose a) =
       ''\<newline>      - '' @ [dq] @ ''/models/tinyllama.gguf:/mnt/models/model.file:ro'' @ [dq]"
    for a
    by (simp_all add: sample_compose_def Compose_init_def gen_model_volume_def
          removeprefix_def startswith_def)
  have rag: "args_rag (args (sample_compose (sample_args\<lparr>args_rag := Some r\<rparr>))) = Some r" for r
    by simp
  have plain: "\<not> startswith ''/data/corpus'' ''oci:''" "\<not> startswith ''/no/such/path'' ''oci:''"
    by (simp_all add: startswith_def)
  show ?thesis
    using
      rag_volume_forms [OF rag, of "''oci:quay.io/org/corpus:v1''" sample_host]
      rag_volume_forms [OF rag, of "''/data/corpus''"
        "sample_host\<lparr>path_exists := (\<lambda>p. p = ''/data/corpus'')\<rparr>"]
      rag_volume_forms [OF rag, of "''/no/such/path''" sample_host]
      plain
    by (simp add: fields Let_def sample_host_def)
qed

section \<open>Read-only mounts\<close>

text \<open>
  C8. The volumes section is its heading followed by the entries, and every entry is
  read-only: it is a bind mount that ends with \<open>:ro\<close> before its closing quote, or
  the image volume with \<open>readonly: true\<close>.
\<close>

theorem read_only_volume_entries:
  "gen_volumes h self = ''    volumes:'' @ concat (volume_entries h self) \<and>
   (\<forall>entry \<in> set (volume_entries h self).
      (\<exists>source target. entry = ''\<newline>      - '' @ [dq] @ source @ '':'' @ target @ '':ro'' @ [dq]) \<or>
      (\<exists>source target. entry =
             ''\<newline>      - type: image'' @
             ''\<newline>        source: '' @ source @
             ''\<newline>        target: '' @ target @
             ''\<newline>        image:'' @
             ''\<newline>          readonly: true''))"
proof
  show "gen_volumes h self = ''    volumes:'' @ concat (volume_entries h self)"
    by (simp add: gen_volumes_def volume_entries_def Let_def split: option.splits)
next
  have model: "\<exists>source target. gen_model_volume self =
      ''\<newline>      - '' @ [dq] @ source @ '':'' @ target @ '':ro'' @ [dq]"
    unfolding gen_model_volume_def by blast
  have chat: "\<exists>source target. gen_chat_template_volume self =
      ''\<newline>      - '' @ [dq] @ source @ '':'' @ target @ '':ro'' @ [dq]"
    unfolding gen_chat_template_volume_def by blast
  have mmproj: "\<exists>source target. gen_mmproj_volume self =
      ''\<newline>      - '' @ [dq] @ source @ '':'' @ target @ '':ro'' @ [dq]"
    unfolding gen_mmproj_volume_def by blast
  have rag: "(\<exists>source target. gen_rag_volume h rag =
                ''\<newline>      - '' @ [dq] @ source @ '':'' @ target @ '':ro'' @ [dq]) \<or>
             (\<exists>source target. gen_rag_volume h rag =
                ''\<newline>      - type: image'' @
                ''\<newline>        source: '' @ source @
                ''\<newline>        target: '' @ target @
                ''\<newline>        image:'' @
                ''\<newline>          readonly: true'')"
    if "gen_rag_volume h rag \<noteq> []" for rag
  proof (cases "startswith rag ''oci:''")
    case True
    then have "gen_rag_volume h rag =
                ''\<newline>      - type: image'' @
                ''\<newline>        source: '' @ removeprefix rag ''oci:'' @
                ''\<newline>        target: '' @ RAG_DIR h @
                ''\<newline>        image:'' @
                ''\<newline>          readonly: true''"
      by (simp add: gen_rag_volume_def)
    then show ?thesis by blast
  next
    case False
    with that have "gen_rag_volume h rag =
        ''\<newline>      - '' @ [dq] @ rag @ '':'' @ RAG_DIR h @ '':ro'' @ [dq]"
      by (simp add: gen_rag_volume_def split: if_splits)
    then show ?thesis by blast
  qed
  show "\<forall>entry \<in> set (volume_entries h self).
      (\<exists>source target. entry = ''\<newline>      - '' @ [dq] @ source @ '':'' @ target @ '':ro'' @ [dq]) \<or>
      (\<exists>source target. entry =
             ''\<newline>      - type: image'' @
             ''\<newline>        source: '' @ source @
             ''\<newline>        target: '' @ target @
             ''\<newline>        image:'' @
             ''\<newline>          readonly: true'')"
  proof
    fix entry
    assume "entry \<in> set (volume_entries h self)"
    then consider "entry = gen_model_volume self"
      | rag where "entry = gen_rag_volume h rag" "gen_rag_volume h rag \<noteq> []"
      | "entry = gen_chat_template_volume self"
      | "entry = gen_mmproj_volume self"
      by (auto simp: volume_entries_def split: option.splits if_splits)
    then show "(\<exists>source target. entry = ''\<newline>      - '' @ [dq] @ source @ '':'' @ target @ '':ro'' @ [dq]) \<or>
      (\<exists>source target. entry =
             ''\<newline>      - type: image'' @
             ''\<newline>        source: '' @ source @
             ''\<newline>        target: '' @ target @
             ''\<newline>        image:'' @
             ''\<newline>          readonly: true'')"
    proof cases
      case 1 with model show ?thesis by blast
    next
      case 2 with rag [of rag] show ?thesis by blast
    next
      case 3 with chat show ?thesis by blast
    next
      case 4 with mmproj show ?thesis by blast
    qed
  qed
qed

text \<open>The two entries of the sample configuration with a corpus image.\<close>

theorem read_only_volume_entries_witness:
  "volume_entries sample_host
     (sample_compose (sample_args\<lparr>args_rag := Some ''oci:quay.io/org/corpus:v1''\<rparr>)) =
     [''\<newline>      - '' @ [dq] @ ''/models/tinyllama.gguf:/mnt/models/model.file:ro'' @ [dq],
      ''\<newline>      - type: image'' @
      ''\<newline>        source: quay.io/org/corpus:v1'' @
      ''\<newline>        target: /rag'' @
      ''\<newline>        image:'' @
      ''\<newline>          readonly: true''] \<and>
   (\<exists>source target.
      ''\<newline>      - '' @ [dq] @ ''/models/tinyllama.gguf:/mnt/models/model.file:ro'' @ [dq] =
      ''\<newline>      - '' @ [dq] @ source @ '':'' @ target @ '':ro'' @ [dq]) \<and>
   (\<exists>source target.
      ''\<newline>      - type: image'' @
      ''\<newline>        source: quay.io/org/corpus:v1'' @
      ''\<newline>        target: /rag'' @
      ''\<newline>        image:'' @
      ''\<newline>          readonly: true'' =
      ''\<newline>      - type: image'' @
      ''\<newline>        source: '' @ source @
      ''\<newline>        target: '' @ target @
      ''\<newline>        image:'' @
      ''\<newline>          readonly: true'')"
proof -
  define c where "c = sample_compose (sample_args\<lparr>args_rag := Some ''oci:quay.io/org/corpus:v1''\<rparr>)"
  define model where
    "model = ''\<newline>      - '' @ [dq] @ ''/models/tinyllama.gguf:/mnt/models/model.file:ro'' @ [dq]"
  define corpus where
    "corpus = ''\<newline>      - type: image'' @
      ''\<newline>        source: quay.io/org/corpus:v1'' @
      ''\<newline>        target: /rag'' @
      ''\<newline>        image:'' @
      ''\<newline>          readonly: true''"
  have entries: "volume_entries sample_host c = [model, corpus]"
    by (simp add: c_def model_def corpus_def volume_entries_def sample_compose_def
          Compose_init_def gen_model_volume_def gen_rag_volume_def removeprefix_def
          startswith_def sample_args_def sample_host_def)
  have "model \<in> set (volume_entries sample_host c)" "corpus \<in> set (volume_entries sample_host c)"
    by (simp_all add: entries)
  from read_only_volume_entries [of sample_host c, THEN conjunct2, THEN bspec, OF this(1)]
       read_only_volume_entries [of sample_host c, THEN conjunct2, THEN bspec, OF this(2)]
  have ro: "(\<exists>source target. model = ''\<newline>      - '' @ [dq] @ source @ '':'' @ target @ '':ro'' @ [dq]) \<or>
      (\<exists>source target. model =
             ''\<newline>      - type: image'' @
             ''\<newline>        source: '' @ source @
             ''\<newline>        target: '' @ target @
             ''\<newline>        image:'' @
             ''\<newline>          readonly: true'')"
    and ro': "(\<exists>source target. corpus = ''\<newline>      - '' @ [dq] @ source @ '':'' @ target @ '':ro'' @ [dq]) \<or>
      (\<exists>source target. corpus =
             ''\<newline>      - type: image'' @
             ''\<newline>        source: '' @ source @
             ''\<newline>        target: '' @ target @
             ''\<newline>        image:'' @
             ''\<newline>          readonly: true'')"
    by blast+
  have not_image: "\<not> (\<exists>source target. model =
             ''\<newline>      - type: image'' @
             ''\<newline>        source: '' @ source @
             ''\<newline>        target: '' @ target @
             ''\<newline>        image:'' @
             ''\<newline>          readonly: true'')"
    by (simp add: model_def dq_def)
  have not_bind: "\<not> (\<exists>source target. corpus =
      ''\<newline>      - '' @ [dq] @ source @ '':'' @ target @ '':ro'' @ [dq])"
    by (simp add: corpus_def dq_def)
  from ro not_image ro' not_bind entries show ?thesis
    unfolding c_def model_def corpus_def by blast
qed

section \<open>The environment section\<close>

lemma str_split_0: "str_split sep 0 s = [s]"
  by (cases s) simp_all

lemma str_split_once:
  "str_split sep (Suc 0) s =
     (if sep \<in> set s then [takeWhile (\<lambda>c. c \<noteq> sep) s, drop 1 (dropWhile (\<lambda>c. c \<noteq> sep) s)]
      else [s])"
  by (induction s) (auto simp: str_split_0)

lemma keys_dict_setitem:
  "map fst (dict_setitem k v d) = (if k \<in> set (map fst d) then map fst d else map fst d @ [k])"
  by (induction d) force+

lemma map_of_dict_setitem: "map_of (dict_setitem k v d) = (map_of d)(k \<mapsto> v)"
  by (induction d) (auto simp: fun_eq_iff)

lemma remdups_snoc: "remdups (ys @ [k]) = filter (\<lambda>x. x \<noteq> k) (remdups ys) @ [k]"
  by (induction ys) auto

lemma first_occurrences_Cons:
  "rev (remdups (rev ks @ [k])) = k # rev (remdups (rev (filter (\<lambda>x. x \<noteq> k) ks)))"
  by (simp add: remdups_snoc remdups_filter rev_filter)

lemma env_overrides_Inr:
  "env_overrides env d0 = Inr d \<Longrightarrow>
     map fst d = map fst d0 @
       rev (remdups (rev (filter (\<lambda>k. k \<notin> set (map fst d0))
                            (map (takeWhile (\<lambda>c. c \<noteq> CHR ''='')) env)))) \<and>
     map_of d = map_of d0 ++
       map_of (rev (map (\<lambda>e. (takeWhile (\<lambda>c. c \<noteq> CHR ''='') e,
                               drop 1 (dropWhile (\<lambda>c. c \<noteq> CHR ''='') e))) env))"
proof (induction env arbitrary: d0)
  case Nil
  then show ?case by simp
next
  case (Cons e env)
  define k where "k = takeWhile (\<lambda>c. c \<noteq> CHR ''='') e"
  define v where "v = drop 1 (dropWhile (\<lambda>c. c \<noteq> CHR ''='') e)"
  define d1 where "d1 = dict_setitem k v d0"
  define ks where "ks = map (takeWhile (\<lambda>c. c \<noteq> CHR ''='')) env"
  from Cons.prems have sep: "CHR ''='' \<in> set e"
    by (auto simp: str_split_once split: if_splits)
  with Cons.prems have rest: "env_overrides env d1 = Inr d"
    by (simp add: str_split_once k_def v_def d1_def)
  note IH = Cons.IH [OF rest, folded ks_def]
  have keys: "map fst d = map fst d0 @
       rev (remdups (rev (filter (\<lambda>k. k \<notin> set (map fst d0)) (k # ks))))"
  proof (cases "k \<in> set (map fst d0)")
    case True
    then have "map fst d1 = map fst d0"
      by (simp add: d1_def keys_dict_setitem)
    with IH True show ?thesis by simp
  next
    case False
    then have d1: "map fst d1 = map fst d0 @ [k]"
      by (simp add: d1_def keys_dict_setitem)
    have "filter (\<lambda>x. x \<notin> set (map fst d1)) ks =
          filter (\<lambda>x. x \<noteq> k) (filter (\<lambda>x. x \<notin> set (map fst d0)) ks)"
      by (auto simp: d1 intro: filter_cong)
    with IH have "map fst d = map fst d1 @
        rev (remdups (rev (filter (\<lambda>x. x \<noteq> k) (filter (\<lambda>x. x \<notin> set (map fst d0)) ks))))"
      by simp
    also have "\<dots> = map fst d0 @
        rev (remdups (rev (filter (\<lambda>x. x \<notin> set (map fst d0)) ks) @ [k]))"
      unfolding first_occurrences_Cons d1 by simp
    finally show ?thesis
      using False by simp
  qed
  have "map_of d1 = (map_of d0)(k \<mapsto> v)"
    by (simp add: d1_def map_of_dict_setitem)
  with IH have vals: "map_of d = map_of d0 ++
       map_of (rev (map (\<lambda>e. (takeWhile (\<lambda>c. c \<noteq> CHR ''='') e,
                               drop 1 (dropWhile (\<lambda>c. c \<noteq> CHR ''='') e))) (e # env)))"
    by (simp add: k_def v_def map_add_def fun_eq_iff split: option.splits)
  from keys vals show ?case
    by (simp add: k_def ks_def)
qed

lemma foldl_append_text: "foldl (\<lambda>s x. s @ f x) a xs = a @ concat (map f xs)"
  by (induction xs arbitrary: a) auto

lemma env_spec_text:
  "env_spec env_vars =
     (if env_vars = [] then []
      else ''    environment:'' @
           concat (map (\<lambda>(k, v). ''\<newline>      - '' @ k @ ''='' @ v) env_vars))"
proof -
  have "(\<lambda>spec (k, v). spec @ ''\<newline>      - '' @ k @ ''='' @ v) =
        (\<lambda>spec x. spec @ (\<lambda>(k, v). ''\<newline>      - '' @ k @ ''='' @ v) x)"
    by (auto simp: fun_eq_iff)
  then show ?thesis
    unfolding env_spec_def by (simp only: foldl_append_text)
qed

text \<open>
  C10. Let the overrides be given and let the merge succeed. The keys of the merged
  mapping, in its order, are the keys of the accelerator mapping in their order,
  whether overridden or not, followed by the keys of the overrides that the
  accelerator mapping does not have, in the order of their first occurrence among the
  overrides. The value of a key is that of its last override, and that of the
  accelerator mapping for a key without an override. The section lists the merged
  mapping in this order, one entry \<open>KEY=VALUE\<close> for each key.
\<close>

theorem environment_order:
  assumes "args_env (args self) = Some env" and "env_merged h self = Inr env_vars"
  shows "map fst env_vars =
           map fst (get_accel_env_vars h) @
           rev (remdups (rev (filter (\<lambda>k. k \<notin> set (map fst (get_accel_env_vars h)))
                                (map (takeWhile (\<lambda>c. c \<noteq> CHR ''='')) env)))) \<and>
         map_of env_vars =
           map_of (get_accel_env_vars h) ++
           map_of (rev (map (\<lambda>e. (takeWhile (\<lambda>c. c \<noteq> CHR ''='') e,
                                   drop 1 (dropWhile (\<lambda>c. c \<noteq> CHR ''='') e))) env)) \<and>
         gen_environment h self =
           Inr (if env_vars = [] then []
                else ''    environment:'' @
                     concat (map (\<lambda>(k, v). ''\<newline>      - '' @ k @ ''='' @ v) env_vars))"
proof -
  from assms have "env_overrides env (get_accel_env_vars h) = Inr env_vars"
    by (simp add: env_merged_def)
  from env_overrides_Inr [OF this] assms(2) show ?thesis
    by (simp add: gen_environment_def env_spec_text)
qed

text \<open>
  Two accelerator variables and four overrides: one replaces the second variable,
  two introduce \<open>ZED\<close>, one introduces \<open>ALPHA\<close>.
\<close>

theorem environment_order_witness:
  "env_merged
     (sample_host\<lparr>get_accel_env_vars :=
        [(''CUDA_VISIBLE_DEVICES'', ''0''), (''HIP_VISIBLE_DEVICES'', ''1'')]\<rparr>)
     (sample_compose (sample_args\<lparr>args_env :=
        Some [''ZED=1'', ''HIP_VISIBLE_DEVICES=3'', ''ALPHA=a=b'', ''ZED=2'']\<rparr>)) =
     Inr [(''CUDA_VISIBLE_DEVICES'', ''0''), (''HIP_VISIBLE_DEVICES'', ''3''),
          (''ZED'', ''2''), (''ALPHA'', ''a=b'')] \<and>
   gen_environment
     (sample_host\<lparr>get_accel_env_vars :=
        [(''CUDA_VISIBLE_DEVICES'', ''0''), (''HIP_VISIBLE_DEVICES'', ''1'')]\<rparr>)
     (sample_compose (sample_args\<lparr>args_env :=
        Some [''ZED=1'', ''HIP_VISIBLE_DEVICES=3'', ''ALPHA=a=b'', ''ZED=2'']\<rparr>)) =
     Inr (''    environment:'' @
          ''\<newline>      - CUDA_VISIBLE_DEVICES=0'' @
          ''\<newline>      - HIP_VISIBLE_DEVICES=3'' @
          ''\<newline>      - ZED=2'' @
          ''\<newline>      - ALPHA=a=b'')"
proof -
  define h where "h = sample_host\<lparr>get_accel_env_vars :=
        [(''CUDA_VISIBLE_DEVICES'', ''0''), (''HIP_VISIBLE_DEVICES'', ''1'')]\<rparr>"
  define c where "c = sample_compose (sample_args\<lparr>args_env :=
        Some [''ZED=1'', ''HIP_VISIBLE_DEVICES=3'', ''ALPHA=a=b'', ''ZED=2'']\<rparr>)"
  have env: "args_env (args c) =
      Some [''ZED=1'', ''HIP_VISIBLE_DEVICES=3'', ''ALPHA=a=b'', ''ZED=2'']"
    by (simp add: c_def)
  have merged: "env_merged h c =
      Inr [(''CUDA_VISIBLE_DEVICES'', ''0''), (''HIP_VISIBLE_DEVICES'', ''3''),
           (''ZED'', ''2''), (''ALPHA'', ''a=b'')]"
    by (simp add: env_merged_def c_def h_def str_split_once)
  from environment_order [OF env merged] merged show ?thesis
    unfolding h_def c_def by simp
qed

section \<open>The lines of the manifest\<close>

lemma strip_nonempty_iff: "strip s \<noteq> [] \<longleftrightarrow> (\<exists>c \<in> set s. \<not> is_space c)"
proof (cases "dropWhile is_space s")
  case Nil
  have "strip s = []"
    unfolding strip_def Nil by simp
  moreover from Nil have "\<forall>c \<in> set s. is_space c"
    by (simp only: dropWhile_eq_Nil_conv)
  ultimately show ?thesis
    by simp
next
  case (Cons c cs)
  then have "\<not> is_space c"
    using hd_dropWhile [of is_space s] by simp
  moreover have "c \<in> set s"
    using Cons set_dropWhileD [of c is_space s] by simp
  ultimately show ?thesis
    using Cons by (auto simp: strip_def dropWhile_eq_Nil_conv)
qed

lemma linebreak_is_space: "is_linebreak c \<Longrightarrow> is_space c"
  by (auto simp: is_linebreak_def is_space_def)

lemma splitlines_from_no_break:
  "\<forall>c \<in> set cur. \<not> is_linebreak c \<Longrightarrow> line \<in> set (splitlines_from cur s) \<Longrightarrow>
     \<forall>c \<in> set line. \<not> is_linebreak c"
proof (induction cur s rule: splitlines_from.induct)
  case (1 cur)
  then show ?case by (simp split: if_splits)
next
  case (2 cur c)
  then show ?case by (cases "is_linebreak c") auto
next
  case (3 cur c d cs)
  show ?case
  proof (cases "is_linebreak c")
    case False
    with "3.prems" have "line \<in> set (splitlines_from (cur @ [c]) (d # cs))"
      by simp
    moreover from False "3.prems"(1) have "\<forall>c \<in> set (cur @ [c]). \<not> is_linebreak c"
      by simp
    ultimately show ?thesis
      using "3.IH"(3) [OF False] by blast
  next
    case True
    show ?thesis
    proof (cases "c = CHR 0x0D \<and> d = CHR 0x0A")
      case crlf: True
      with True "3.prems"(2) have "line = cur \<or> line \<in> set (splitlines_from [] cs)"
        by (simp del: splitlines_from.simps add: splitlines_from.simps(3))
      then show ?thesis
        using "3.IH"(1) [OF True crlf] "3.prems"(1) by auto
    next
      case other: False
      with True "3.prems"(2) have "line = cur \<or> line \<in> set (splitlines_from [] (d # cs))"
        by (simp del: splitlines_from.simps add: splitlines_from.simps(3))
      then show ?thesis
        using "3.IH"(2) [OF True other] "3.prems"(1) by auto
    qed
  qed
qed

lemma splitlines_from_char:
  "\<not> is_linebreak c \<Longrightarrow> splitlines_from cur (c # s) = splitlines_from (cur @ [c]) s"
  by (cases s) simp_all

lemma splitlines_from_line:
  "\<forall>c \<in> set line. \<not> is_linebreak c \<Longrightarrow>
     splitlines_from cur (line @ s) = splitlines_from (cur @ line) s"
  by (induction line arbitrary: cur) (simp_all add: splitlines_from_char)

lemma splitlines_from_newline:
  "splitlines_from cur (CHR ''\<newline>'' # s) = cur # splitlines_from [] s"
  by (cases s) (simp_all add: is_linebreak_def)

lemma splitlines_str_join:
  "\<forall>line \<in> set ls. line \<noteq> [] \<and> (\<forall>c \<in> set line. \<not> is_linebreak c) \<Longrightarrow>
     splitlines (str_join ''\<newline>'' ls) = ls"
proof (induction "''\<newline>''" ls rule: str_join.induct)
  case 1
  then show ?case by (simp add: splitlines_def)
next
  case (2 x)
  then show ?case
    using splitlines_from_line [of x "[]" "[]"] by (simp add: splitlines_def)
next
  case (3 x y ys)
  then have "splitlines (str_join ''\<newline>'' (y # ys)) = y # ys"
    by simp
  moreover have "splitlines_from [] (x @ CHR ''\<newline>'' # str_join ''\<newline>'' (y # ys)) =
                 x # splitlines_from [] (str_join ''\<newline>'' (y # ys))"
    using 3 splitlines_from_line [of x "[]"] by (simp add: splitlines_from_newline)
  ultimately show ?case
    by (simp add: splitlines_def)
qed

lemma generate_content:
  assumes "generate h self = Inr (message, file)"
  shows "\<exists>body. content file = str_join ''\<newline>'' (filter (\<lambda>line. strip line \<noteq> []) (splitlines body))"
proof (cases "gen_environment h self")
  case (Inl e)
  with assms show ?thesis by (simp add: generate_def)
next
  case (Inr environment_string)
  with assms have "content file = str_join ''\<newline>'' (filter (\<lambda>line. strip line \<noteq> [])
      (splitlines (template (version h) self (gen_volumes h self) (gen_ports self)
         environment_string (gen_devices h) (gen_gpu_deployment self) (gen_command self))))"
    by (auto simp add: generate_def genfile_def Let_def)
  then show ?thesis by blast
qed

lemma cuda_sample_manifest:
  "generate sample_host
     (Compose_init ''tinyllama'' (''/models/tinyllama.gguf'', ''/mnt/models/model.file'')
        None None (sample_args\<lparr>args_image := ''quay.io/ramalama/cuda:latest''\<rparr>)
        [''llama-server'', ''--alias'', ''tiny llama'']) =
   Inr (''Generating Docker Compose file: docker-compose.yaml'',
        \<lparr> filename = ''docker-compose.yaml'',
          content =
            ''# Save this output to a 'docker-compose.yaml' file and run 'docker compose up'.'' @
            ''\<newline>#'' @
            ''\<newline># Created with ramalama-0.12.1'' @
            ''\<newline>services:'' @
            ''\<newline>  tinyllama:'' @
            ''\<newline>    container_name: ramalama-tinyllama'' @
            ''\<newline>    image: quay.io/ramalama/cuda:latest'' @
            ''\<newline>    volumes:'' @
            ''\<newline>      - '' @ [dq] @ ''/models/tinyllama.gguf:/mnt/models/model.file:ro'' @ [dq] @
            ''\<newline>    ports:'' @
            ''\<newline>      - '' @ [dq] @ ''8080:8080'' @ [dq] @
            ''\<newline>    deploy:'' @
            ''\<newline>      resources:'' @
            ''\<newline>        reservations:'' @
            ''\<newline>          devices:'' @
            ''\<newline>            - driver: nvidia'' @
            ''\<newline>              count: all'' @
            ''\<newline>              capabilities: [gpu]'' @
            ''\<newline>    command: llama-server --alias '' @ [sq] @ ''tiny llama'' @ [sq] @
            ''\<newline>    restart: unless-stopped'' \<rparr>)"
  by code_simp

text \<open>
  C9. Whenever \<open>generate\<close> returns a file, no line of its text is empty and every
  line has a character that is not whitespace. The lines are those of
  \<open>splitlines\<close>; the text is these lines joined by line feeds.
\<close>

theorem no_blank_line:
  assumes "generate h self = Inr (message, file)"
  shows "\<forall>line \<in> set (splitlines (content file)). line \<noteq> [] \<and> (\<exists>c \<in> set line. \<not> is_space c)"
proof -
  obtain body where
    shape: "content file = str_join ''\<newline>'' (filter (\<lambda>line. strip line \<noteq> []) (splitlines body))"
    using generate_content [OF assms] by blast
  define kept where "kept = filter (\<lambda>line. strip line \<noteq> []) (splitlines body)"
  have kept: "line \<noteq> [] \<and> (\<exists>c \<in> set line. \<not> is_space c) \<and> (\<forall>c \<in> set line. \<not> is_linebreak c)"
    if "line \<in> set kept" for line
  proof -
    from that have "strip line \<noteq> []" and "line \<in> set (splitlines_from [] body)"
      by (simp_all add: kept_def splitlines_def)
    then show ?thesis
      using splitlines_from_no_break [of "[]" line body]
      by (auto simp: strip_nonempty_iff)
  qed
  then have "splitlines (str_join ''\<newline>'' kept) = kept"
    by (intro splitlines_str_join) blast
  with kept show ?thesis
    by (simp add: shape kept_def [symmetric])
qed

text \<open>A configuration with a CUDA image and a command, and the lines of its manifest.\<close>

theorem no_blank_line_witness:
  "generate sample_host
     (Compose_init ''tinyllama'' (''/models/tinyllama.gguf'', ''/mnt/models/model.file'')
        None None (sample_args\<lparr>args_image := ''quay.io/ramalama/cuda:latest''\<rparr>)
        [''llama-server'', ''--alias'', ''tiny llama'']) =
   Inr (''Generating Docker Compose file: docker-compose.yaml'',
        \<lparr> filename = ''docker-compose.yaml'',
          content =
            ''# Save this output to a 'docker-compose.yaml' file and run 'docker compose up'.'' @
            ''\<newline>#'' @
            ''\<newline># Created with ramalama-0.12.1'' @
            ''\<newline>services:'' @
            ''\<newline>  tinyllama:'' @
            ''\<newline>    container_name: ramalama-tinyllama'' @
            ''\<newline>    image: quay.io/ramalama/cuda:latest'' @
            ''\<newline>    volumes:'' @
            ''\<newline>      - '' @ [dq] @ ''/models/tinyllama.gguf:/mnt/models/model.file:ro'' @ [dq] @
            ''\<newline>    ports:'' @
            ''\<newline>      - '' @ [dq] @ ''8080:8080'' @ [dq] @
            ''\<newline>    deploy:'' @
            ''\<newline>      resources:'' @
            ''\<newline>        reservations:'' @
            ''\<newline>          devices:'' @
            ''\<newline>            - driver: nvidia'' @
            ''\<newline>              count: all'' @
            ''\<newline>              capabilities: [gpu]'' @
            ''\<newline>    command: llama-server --alias '' @ [sq] @ ''tiny llama'' @ [sq] @
            ''\<newline>    restart: unless-stopped'' \<rparr>) \<and>
   list_all (\<lambda>line. line \<noteq> [] \<and> (\<exists>c \<in> set line. \<not> is_space c))
     (splitlines
        (
            ''# Save this output to a 'docker-compose.yaml' file and run 'docker compose up'.'' @
            ''\<newline>#'' @
            ''\<newline># Created with ramalama-0.12.1'' @
            ''\<newline>services:'' @
            ''\<newline>  tinyllama:'' @
            ''\<newline>    container_name: ramalama-tinyllama'' @
            ''\<newline>    image: quay.io/ramalama/cuda:latest'' @
            ''\<newline>    volumes:'' @
            ''\<newline>      - '' @ [dq] @ ''/models/tinyllama.gguf:/mnt/models/model.file:ro'' @ [dq] @
            ''\<newline>    ports:'' @
            ''\<newline>      - '' @ [dq] @ ''8080:8080'' @ [dq] @
            ''\<newline>    deploy:'' @
            ''\<newline>      resources:'' @
            ''\<newline>        reservations:'' @
            ''\<newline>          devices:'' @
            ''\<newline>            - driver: nvidia'' @
            ''\<newline>              count: all'' @
            ''\<newline>              capabilities: [gpu]'' @
            ''\<newline>    command: llama-server --alias '' @ [sq] @ ''tiny llama'' @ [sq] @
            ''\<newline>    restart: unless-stopped''))"
  using cuda_sample_manifest no_blank_line [OF cuda_sample_manifest]
  by (simp only: PlainFile.simps list_all_iff)

section \<open>The command section\<close>


















section \<open>The sections in the manifest\<close>

text \<open>
  The lines of a text that is cut at a line feed are the lines of the two parts,
  up to an empty line; so the lines that \<open>generate\<close> keeps are those of the
  sections of the template, one section after the other.
\<close>

lemma break_chars: "is_linebreak (CHR 0x0A)" "is_linebreak (CHR 0x0D)"
  by (simp_all add: is_linebreak_def)

lemma splitlines_from_crlf:
  "splitlines_from cur (CHR 0x0D # CHR 0x0A # s) = cur # splitlines_from [] s"
  by (simp add: break_chars)

lemma splitlines_from_break:
  assumes "is_linebreak c" and "c \<noteq> CHR 0x0D \<or> s = [] \<or> hd s \<noteq> CHR 0x0A"
  shows "splitlines_from cur (c # s) = cur # splitlines_from [] s"
proof (cases s)
  case Nil
  with assms(1) show ?thesis by simp
next
  case (Cons d s')
  with assms(2) have "\<not> (c = CHR 0x0D \<and> d = CHR 0x0A)" by simp
  with assms(1) Cons show ?thesis
    by (cases "c = CHR 0x0D") simp_all
qed


declare splitlines_from.simps [simp del]

lemma splitlines_from_cut:
  "splitlines_from cur (x @ CHR 0x0A # y) =
   splitlines_from cur (x @ [CHR 0x0A]) @ splitlines_from [] y"
proof (induction x arbitrary: cur rule: induct_list012)
  case 1
  show ?case
    by (simp add: splitlines_from_break break_chars splitlines_from.simps(1))
next
  case (2 c)
  show ?case
  proof (cases "is_linebreak c")
    case False
    then show ?thesis
      by (simp add: splitlines_from_char splitlines_from_break break_chars
            splitlines_from.simps(1))
  next
    case True
    show ?thesis
    proof (cases "c = CHR 0x0D")
      case True
      then show ?thesis
        by (simp add: splitlines_from_crlf splitlines_from.simps(1))
    next
      case False
      with \<open>is_linebreak c\<close> show ?thesis
        by (simp add: splitlines_from_break break_chars splitlines_from.simps(1))
    qed
  qed
next
  case (3 c d cs)
  show ?case
  proof (cases "is_linebreak c")
    case False
    then show ?thesis
      using "3.IH"(2) [of "cur @ [c]"]
      by (simp add: splitlines_from_char)
  next
    case True
    show ?thesis
    proof (cases "c = CHR 0x0D \<and> d = CHR 0x0A")
      case True
      then show ?thesis
        using "3.IH"(1) [of "[]"]
        by (simp add: splitlines_from_crlf)
    next
      case False
      with \<open>is_linebreak c\<close> show ?thesis
        using "3.IH"(2) [of "[]"]
        by (simp add: splitlines_from_break)
    qed
  qed
qed


lemma strip_Nil [simp]: "strip [] = []"
  by (simp add: strip_def)

lemma nonblank_lines_newline:
  "filter (\<lambda>line. strip line \<noteq> []) (splitlines_from cur (x @ [CHR 0x0A])) =
   filter (\<lambda>line. strip line \<noteq> []) (splitlines_from cur x)"
proof (induction x arbitrary: cur rule: induct_list012)
  case 1
  show ?case
    by (simp add: splitlines_from_break break_chars splitlines_from.simps(1))
next
  case (2 c)
  show ?case
  proof (cases "is_linebreak c")
    case False
    then show ?thesis
      by (simp add: splitlines_from_char splitlines_from_break break_chars
            splitlines_from.simps(1))
  next
    case True
    show ?thesis
    proof (cases "c = CHR 0x0D")
      case True
      then show ?thesis
        by (simp add: splitlines_from_crlf splitlines_from_break break_chars
              splitlines_from.simps(1))
    next
      case False
      with \<open>is_linebreak c\<close> show ?thesis
        by (simp add: splitlines_from_break break_chars splitlines_from.simps(1))
    qed
  qed
next
  case (3 c d cs)
  show ?case
  proof (cases "is_linebreak c")
    case False
    then show ?thesis
      using "3.IH"(2) [of "cur @ [c]"]
      by (simp add: splitlines_from_char)
  next
    case True
    show ?thesis
    proof (cases "c = CHR 0x0D \<and> d = CHR 0x0A")
      case True
      then show ?thesis
        using "3.IH"(1) [of "[]"]
        by (simp add: splitlines_from_crlf)
    next
      case False
      with \<open>is_linebreak c\<close> show ?thesis
        using "3.IH"(2) [of "[]"]
        by (simp add: splitlines_from_break)
    qed
  qed
qed

lemma nonblank_lines_cut:
  "filter (\<lambda>line. strip line \<noteq> []) (splitlines (x @ CHR 0x0A # y)) =
   filter (\<lambda>line. strip line \<noteq> []) (splitlines x) @
   filter (\<lambda>line. strip line \<noteq> []) (splitlines y)"
  unfolding splitlines_def
  by (simp only: splitlines_from_cut [of "[]" x y] filter_append nonblank_lines_newline)

lemma restart_lines:
  "filter (\<lambda>line. strip line \<noteq> []) (splitlines ''    restart: unless-stopped\<newline>'') =
   [''    restart: unless-stopped'']"
  by code_simp

lemma deploy_lines:
  "filter (\<lambda>line. strip line \<noteq> [])
     (splitlines
        (''    deploy:'' @
         ''\<newline>      resources:'' @
         ''\<newline>        reservations:'' @
         ''\<newline>          devices:'' @
         ''\<newline>            - driver: nvidia'' @
         ''\<newline>              count: all'' @
         ''\<newline>              capabilities: [gpu]'')) =
   [''    deploy:'', ''      resources:'', ''        reservations:'', ''          devices:'',
    ''            - driver: nvidia'', ''              count: all'',
    ''              capabilities: [gpu]'']"
  by code_simp

lemma empty_lines: "filter (\<lambda>line. strip line \<noteq> []) (splitlines []) = []"
  by code_simp

lemma template_cut:
  "\<exists>x. \<forall>gpu cmd. template v self vol ports env dev gpu cmd =
         x @ CHR 0x0A # gpu @ CHR 0x0A # cmd @ CHR 0x0A # ''    restart: unless-stopped\<newline>''"
proof -
  define x where "x =
     ''# Save this output to a 'docker-compose.yaml' file and run 'docker compose up'.'' @
     ''\<newline>#'' @
     ''\<newline># Created with ramalama-'' @ v @
     ''\<newline>'' @
     ''\<newline>services:'' @
     ''\<newline>  '' @ model_name self @ '':'' @
     ''\<newline>    container_name: '' @ name self @
     ''\<newline>    image: '' @ image_ref self @
     ''\<newline>'' @ vol @
     ''\<newline>'' @ ports @
     ''\<newline>'' @ env @
     ''\<newline>'' @ dev"
  have "template v self vol ports env dev gpu cmd =
         x @ CHR 0x0A # gpu @ CHR 0x0A # cmd @ CHR 0x0A # ''    restart: unless-stopped\<newline>''"
    for gpu cmd
    by (simp add: template_def x_def)
  then show ?thesis by blast
qed

lemma template_lines:
  "\<exists>pre. \<forall>gpu cmd.
     filter (\<lambda>line. strip line \<noteq> []) (splitlines (template v self vol ports env dev gpu cmd)) =
     pre @ filter (\<lambda>line. strip line \<noteq> []) (splitlines gpu) @
     filter (\<lambda>line. strip line \<noteq> []) (splitlines cmd) @ [''    restart: unless-stopped'']"
proof -
  obtain x where x: "template v self vol ports env dev gpu cmd =
         x @ CHR 0x0A # gpu @ CHR 0x0A # cmd @ CHR 0x0A # ''    restart: unless-stopped\<newline>''"
    for gpu cmd
    using template_cut [of v self vol ports env dev] by blast
  have "filter (\<lambda>line. strip line \<noteq> []) (splitlines (template v self vol ports env dev gpu cmd)) =
     filter (\<lambda>line. strip line \<noteq> []) (splitlines x) @
     filter (\<lambda>line. strip line \<noteq> []) (splitlines gpu) @
     filter (\<lambda>line. strip line \<noteq> []) (splitlines cmd) @ [''    restart: unless-stopped'']"
    for gpu cmd
    unfolding x nonblank_lines_cut restart_lines ..
  then show ?thesis by blast
qed


lemma manifest_lines:
  assumes "generate h self = Inr (message, file)"
  shows "\<exists>environment_string.
           gen_environment h self = Inr environment_string \<and>
           splitlines (content file) =
             filter (\<lambda>line. strip line \<noteq> [])
               (splitlines (template (version h) self (gen_volumes h self) (gen_ports self)
                  environment_string (gen_devices h) (gen_gpu_deployment self)
                  (gen_command self)))"
proof (cases "gen_environment h self")
  case (Inl e)
  with assms show ?thesis by (simp add: generate_def)
next
  case (Inr environment_string)
  define kept where "kept =
    filter (\<lambda>line. strip line \<noteq> [])
      (splitlines (template (version h) self (gen_volumes h self) (gen_ports self)
         environment_string (gen_devices h) (gen_gpu_deployment self) (gen_command self)))"
  from assms Inr have shape: "content file = str_join ''\<newline>'' kept"
    by (auto simp add: generate_def genfile_def Let_def kept_def)
  have "line \<noteq> [] \<and> (\<forall>c \<in> set line. \<not> is_linebreak c)" if "line \<in> set kept" for line
  proof -
    from that have "strip line \<noteq> []"
      and "line \<in> set (splitlines_from []
        (template (version h) self (gen_volumes h self) (gen_ports self)
         environment_string (gen_devices h) (gen_gpu_deployment self) (gen_command self)))"
      by (simp_all add: kept_def splitlines_def)
    then show ?thesis
      using splitlines_from_no_break [of "[]" line]
      by (auto simp: strip_nonempty_iff)
  qed
  then have "splitlines (str_join ''\<newline>'' kept) = kept"
    by (intro splitlines_str_join) blast
  with Inr shape show ?thesis
    by (simp add: kept_def)
qed

lemma gen_gpu_deployment_lines:
  "filter (\<lambda>line. strip line \<noteq> []) (splitlines (gen_gpu_deployment self)) =
     (if \<exists>a b. image_ref self = a @ ''cuda'' @ b
      then [''    deploy:'', ''      resources:'', ''        reservations:'',
            ''          devices:'', ''            - driver: nvidia'',
            ''              count: all'', ''              capabilities: [gpu]'']
      else [])"
proof (cases "str_contains ''cuda'' (image_ref self)")
  case True
  then have "gen_gpu_deployment self =
         ''    deploy:'' @
         ''\<newline>      resources:'' @
         ''\<newline>        reservations:'' @
         ''\<newline>          devices:'' @
         ''\<newline>            - driver: nvidia'' @
         ''\<newline>              count: all'' @
         ''\<newline>              capabilities: [gpu]''"
    by (simp add: gen_gpu_deployment_def)
  with True show ?thesis
    by (simp only: deploy_lines str_contains_iff if_True)
next
  case False
  then have "gen_gpu_deployment self = []"
    by (simp add: gen_gpu_deployment_def)
  with False show ?thesis
    by (simp only: empty_lines str_contains_iff if_False)
qed

lemma generate_returns:
  "gen_environment h self = Inr environment_string \<Longrightarrow>
     \<exists>message file. generate h self = Inr (message, file)"
  by (simp add: generate_def genfile_def Let_def)

text \<open>
  C6, as the code has it. Whenever \<open>generate\<close> returns a file, the lines of its text
  are the lines of the template filled with an empty deploy section, and exactly when
  \<open>cuda\<close> occurs somewhere in the image reference the seven lines of the
  reservation (driver \<open>nvidia\<close>, count \<open>all\<close>, capability \<open>gpu\<close>) stand
  among them as one block, right before the lines of the command section and the
  restart line. Without \<open>cuda\<close> the generator adds no deploy section.
\<close>

theorem deploy_section_in_manifest:
  assumes "generate h self = Inr (message, file)"
  shows "\<exists>environment_string pre.
           gen_environment h self = Inr environment_string \<and>
           filter (\<lambda>line. strip line \<noteq> [])
             (splitlines (template (version h) self (gen_volumes h self) (gen_ports self)
                environment_string (gen_devices h) [] (gen_command self))) =
             pre @ filter (\<lambda>line. strip line \<noteq> []) (splitlines (gen_command self)) @
             [''    restart: unless-stopped''] \<and>
           splitlines (content file) =
             pre @
             (if \<exists>a b. image_ref self = a @ ''cuda'' @ b
              then [''    deploy:'', ''      resources:'', ''        reservations:'',
                    ''          devices:'', ''            - driver: nvidia'',
                    ''              count: all'', ''              capabilities: [gpu]'']
              else []) @
             filter (\<lambda>line. strip line \<noteq> []) (splitlines (gen_command self)) @
             [''    restart: unless-stopped'']"
proof -
  from manifest_lines [OF assms] obtain environment_string where
    env: "gen_environment h self = Inr environment_string" and
    lines: "splitlines (content file) =
             filter (\<lambda>line. strip line \<noteq> [])
               (splitlines (template (version h) self (gen_volumes h self) (gen_ports self)
                  environment_string (gen_devices h) (gen_gpu_deployment self)
                  (gen_command self)))"
    by blast
  from template_lines [of "version h" self "gen_volumes h self" "gen_ports self"
      environment_string "gen_devices h"]
  obtain pre where pre:
    "filter (\<lambda>line. strip line \<noteq> [])
       (splitlines (template (version h) self (gen_volumes h self) (gen_ports self)
          environment_string (gen_devices h) gpu cmd)) =
     pre @ filter (\<lambda>line. strip line \<noteq> []) (splitlines gpu) @
     filter (\<lambda>line. strip line \<noteq> []) (splitlines cmd) @ [''    restart: unless-stopped'']"
    for gpu cmd
    by blast
  have without: "filter (\<lambda>line. strip line \<noteq> [])
             (splitlines (template (version h) self (gen_volumes h self) (gen_ports self)
                environment_string (gen_devices h) [] (gen_command self))) =
             pre @ filter (\<lambda>line. strip line \<noteq> []) (splitlines (gen_command self)) @
             [''    restart: unless-stopped'']"
    unfolding pre empty_lines by simp
  have "splitlines (content file) =
             pre @
             (if \<exists>a b. image_ref self = a @ ''cuda'' @ b
              then [''    deploy:'', ''      resources:'', ''        reservations:'',
                    ''          devices:'', ''            - driver: nvidia'',
                    ''              count: all'', ''              capabilities: [gpu]'']
              else []) @
             filter (\<lambda>line. strip line \<noteq> []) (splitlines (gen_command self)) @
             [''    restart: unless-stopped'']"
    unfolding lines pre gen_gpu_deployment_lines ..
  with env without show ?thesis by blast
qed

text \<open>
  The image with \<open>cuda\<close> of the specification: the manifest ends with the
  reservation and the restart line.
\<close>

theorem deploy_section_in_manifest_witness:
  "\<exists>message file pre.
     generate sample_host
       (sample_compose (sample_args\<lparr>args_image := ''myorg/llama-cuda:latest''\<rparr>)) =
       Inr (message, file) \<and>
     splitlines (content file) =
       pre @
       [''    deploy:'', ''      resources:'', ''        reservations:'',
        ''          devices:'', ''            - driver: nvidia'',
        ''              count: all'', ''              capabilities: [gpu]''] @
       [''    restart: unless-stopped'']"
proof -
  define c where "c = sample_compose (sample_args\<lparr>args_image := ''myorg/llama-cuda:latest''\<rparr>)"
  have "gen_environment sample_host c = Inr []"
    by (simp add: c_def gen_environment_def env_merged_def env_spec_def sample_args_def
          sample_host_def)
  from generate_returns [OF this] obtain message manifest where
    gen: "generate sample_host c = Inr (message, manifest)"
    by blast
  have "image_ref c = ''myorg/llama-'' @ ''cuda'' @ '':latest''"
    by (simp add: c_def sample_compose_def Compose_init_def sample_args_def)
  then have cuda: "\<exists>a b. image_ref c = a @ ''cuda'' @ b"
    by blast
  have cmd: "gen_command c = []"
    by (simp add: c_def sample_compose_def Compose_init_def gen_command_def)
  from deploy_section_in_manifest [OF gen] obtain pre where
    "splitlines (content manifest) =
       pre @
       [''    deploy:'', ''      resources:'', ''        reservations:'',
        ''          devices:'', ''            - driver: nvidia'',
        ''              count: all'', ''              capabilities: [gpu]''] @
       [''    restart: unless-stopped'']"
    unfolding cmd empty_lines if_P [OF cuda] by auto
  with gen show ?thesis
    unfolding c_def by blast
qed

text \<open>
  C6 as the specification states it fails in both directions. An image without
  \<open>cuda\<close> and a command argument that holds the lines of the reservation give a
  manifest with these lines; an image with \<open>cuda\<close> and an environment override
  without \<open>=\<close> give no manifest at all.
\<close>

theorem deploy_lines_without_cuda_counterexample:
  "\<not> str_contains ''cuda'' ''myorg/llama-cpu:latest'' \<and>
   generate sample_host
     (Compose_init ''tinyllama'' (''/models/tinyllama.gguf'', ''/mnt/models/model.file'')
        None None (sample_args\<lparr>args_image := ''myorg/llama-cpu:latest''\<rparr>)
        [''x'' @
         ''\<newline>    deploy:'' @
         ''\<newline>      resources:'' @
         ''\<newline>        reservations:'' @
         ''\<newline>          devices:'' @
         ''\<newline>            - driver: nvidia'' @
         ''\<newline>              count: all'' @
         ''\<newline>              capabilities: [gpu]'' @
         ''\<newline>y'']) =
   Inr (''Generating Docker Compose file: docker-compose.yaml'',
        \<lparr> filename = ''docker-compose.yaml'',
          content =
            ''# Save this output to a 'docker-compose.yaml' file and run 'docker compose up'.'' @
            ''\<newline>#'' @
            ''\<newline># Created with ramalama-0.12.1'' @
            ''\<newline>services:'' @
            ''\<newline>  tinyllama:'' @
            ''\<newline>    container_name: ramalama-tinyllama'' @
            ''\<newline>    image: myorg/llama-cpu:latest'' @
            ''\<newline>    volumes:'' @
            ''\<newline>      - '' @ [dq] @ ''/models/tinyllama.gguf:/mnt/models/model.file:ro'' @ [dq] @
            ''\<newline>    ports:'' @
            ''\<newline>      - '' @ [dq] @ ''8080:8080'' @ [dq] @
            ''\<newline>    command: '' @ [sq] @ ''x'' @
            ''\<newline>    deploy:'' @
            ''\<newline>      resources:'' @
            ''\<newline>        reservations:'' @
            ''\<newline>          devices:'' @
            ''\<newline>            - driver: nvidia'' @
            ''\<newline>              count: all'' @
            ''\<newline>              capabilities: [gpu]'' @
            ''\<newline>y'' @ [sq] @
            ''\<newline>    restart: unless-stopped'' \<rparr>) \<and>
   generate sample_host
     (sample_compose
        (sample_args\<lparr>args_image := ''myorg/llama-cuda:latest'', args_env := Some [''BAD'']\<rparr>)) =
   Inl ValueError"
  by code_simp

section \<open>The command in the manifest\<close>









end
